theory Spec2Isabelle
  imports Complex_Main
begin

section \<open>Python values, exceptions and the log stream\<close>

text \<open>
  The client passes Python values through without inspecting them: call arguments go into
  the request payload, and whatever \<^verbatim>\<open>json.loads\<close> makes of the response body comes
  back to the caller. A float is a rational, an infinity or NaN; \<open>PType\<close> is a type
  expression such as \<^verbatim>\<open>list[int]\<close>, which is a value in Python but never the result
  of decoding JSON. A dict is an association list, looked up with \<open>map_of\<close>.
\<close>

datatype pyfloat = Finite rat | PosInf | NegInf | NaN

datatype pyval =
    PNone
  | PBool bool
  | PInt int
  | PFloat pyfloat
  | PStr string
  | PList "pyval list"
  | PDict "(string \<times> pyval) list"
  | PType string

datatype exn =
    ConnectionError
  | AttributeError
  | JSONDecodeError
  | KeyError
  | TypeError
  | OtherException string

text \<open>
  \<^verbatim>\<open>x[k]\<close> for a string key \<open>k\<close>: only a dict can be subscripted by a string; a missing
  key raises \<^verbatim>\<open>KeyError\<close>, every other kind of value raises \<^verbatim>\<open>TypeError\<close>.
\<close>

fun subscript :: "pyval \<Rightarrow> string \<Rightarrow> exn + pyval" where
  "subscript (PDict d) k = (case map_of d k of Some v \<Rightarrow> Inr v | None \<Rightarrow> Inl KeyError)"
| "subscript PNone k = Inl TypeError"
| "subscript (PBool b) k = Inl TypeError"
| "subscript (PInt n) k = Inl TypeError"
| "subscript (PFloat f) k = Inl TypeError"
| "subscript (PStr s) k = Inl TypeError"
| "subscript (PList xs) k = Inl TypeError"
| "subscript (PType t) k = Inl TypeError"

text \<open>
  \<^verbatim>\<open>x < t\<close> for an integer \<open>t\<close>: numbers (and booleans, which are integers in Python)
  compare by value, NaN compares false, anything else raises \<^verbatim>\<open>TypeError\<close>.
\<close>

fun less_int :: "pyval \<Rightarrow> int \<Rightarrow> exn + bool" where
  "less_int (PInt n) t = Inr (n < t)"
| "less_int (PBool b) t = Inr ((if b then 1 else 0) < t)"
| "less_int (PFloat (Finite r)) t = Inr (r < of_int t)"
| "less_int (PFloat PosInf) t = Inr False"
| "less_int (PFloat NegInf) t = Inr True"
| "less_int (PFloat NaN) t = Inr False"
| "less_int PNone t = Inl TypeError"
| "less_int (PStr s) t = Inl TypeError"
| "less_int (PList xs) t = Inl TypeError"
| "less_int (PDict d) t = Inl TypeError"
| "less_int (PType ty) t = Inl TypeError"

text \<open>
  The module logs through its own logger (\<^verbatim>\<open>logging.getLogger(__name__)\<close>) and, in one
  place, through the root logger (\<^verbatim>\<open>logging.warning\<close>).
\<close>

datatype logger = ModuleLogger | RootLogger

datatype level = DEBUG | WARNING | ERROR

datatype event = Event (logger_of: logger) (level_of: level) (message: string)

section \<open>The client and its collaborators\<close>

record BasicApi =
  url :: string
  api_key :: string
  version_str :: string
  warn_below_quota_requests :: int
  warn_below_quota_bits :: int

text \<open>
  What \<^verbatim>\<open>requests.post\<close> hands back: a status code and a body. The body is kept as
  what \<^verbatim>\<open>json.loads\<close> makes of it: \<open>None\<close> when decoding raises.
\<close>

record response =
  status_code :: int
  content :: "pyval option"

datatype post_outcome = Returns response | Raises exn

type_synonym transport = "string \<Rightarrow> pyval \<Rightarrow> post_outcome"

text \<open>The client object and the log stream are threaded through every method.\<close>

record state =
  self :: BasicApi
  log_stream :: "event list"

definition emit :: "logger \<Rightarrow> level \<Rightarrow> string \<Rightarrow> state \<Rightarrow> state" where
  "emit lg lv msg s = s\<lparr>log_stream := log_stream s @ [Event lg lv msg]\<rparr>"

subsection \<open>Construction\<close>

fun str_nat :: "nat \<Rightarrow> string" where
  "str_nat n =
     (if n < 10 then [char_of (48 + n)]
      else str_nat (n div 10) @ [char_of (48 + n mod 10)])"

declare str_nat.simps [simp del]

definition str_int :: "int \<Rightarrow> string" where
  "str_int i = (if i < 0 then CHR ''-'' # str_nat (nat (- i)) else str_nat (nat i))"

definition init :: "string \<Rightarrow> int \<Rightarrow> string \<Rightarrow> int \<Rightarrow> int \<Rightarrow> BasicApi" where
  "init key version vstr quota_requests quota_bits =
     \<lparr>url = ''https://api.random.org/json-rpc/'' @ str_int version @ ''/invoke'',
      api_key = key,
      version_str = vstr,
      warn_below_quota_requests = quota_requests,
      warn_below_quota_bits = quota_bits\<rparr>"

subsection \<open>Log messages\<close>

definition connection_error_msg :: "string \<Rightarrow> string" where
  "connection_error_msg method = ''A ConnectionError occured during basicApi.'' @ method @ ''()''"

definition decode_error_msg :: "string \<Rightarrow> string" where
  "decode_error_msg method = ''Could not decode the http response of basicApi.'' @ method @ ''()''"

definition status_warning_msg :: "string \<Rightarrow> string" where
  "status_warning_msg method =
     ''Response Code indicates non succesful request for basicApi.'' @ method @ ''()''"

definition success_msg :: "string \<Rightarrow> string" where
  "success_msg method = ''Sucessfully retrieved basicApi.'' @ method @ ''()''"

definition low_request_quota_msg :: string where
  "low_request_quota_msg = ''Low Request-Quota for API.''"

definition low_bit_quota_msg :: string where
  "low_bit_quota_msg = ''Low Bit-Quota for API.''"

subsection \<open>The shared pipeline\<close>

text \<open>
  \<^verbatim>\<open>_robust_http_request\<close>: the \<^verbatim>\<open>except ConnectionError\<close> clause names the builtin
  exception; it logs and returns \<^verbatim>\<open>None\<close>. Any other exception of the transport
  propagates.
\<close>

definition robust_http_request ::
  "transport \<Rightarrow> pyval \<Rightarrow> string \<Rightarrow> state \<Rightarrow> (exn + response option) \<times> state" where
  "robust_http_request post payload method s =
     (case post (url (self s)) payload of
        Raises e \<Rightarrow>
          if e = ConnectionError
          then (Inr None, emit ModuleLogger ERROR (connection_error_msg method) s)
          else (Inl e, s)
      | Returns r \<Rightarrow> (Inr (Some r), s))"

text \<open>\<^verbatim>\<open>_is_response_successful\<close> answers True when the status is \<^emph>\<open>not\<close> a 2xx one.\<close>

definition is_response_successful :: "int \<Rightarrow> string \<Rightarrow> state \<Rightarrow> bool \<times> state" where
  "is_response_successful code method s =
     (if \<not> (200 \<le> code \<and> code \<le> 299)
      then (True, emit ModuleLogger WARNING (status_warning_msg method) s)
      else (False, s))"

text \<open>
  The body of the \<^verbatim>\<open>try\<close> block of \<^verbatim>\<open>_extract_result\<close>: \<^verbatim>\<open>response.content\<close> on
  \<^verbatim>\<open>None\<close> is an \<^verbatim>\<open>AttributeError\<close>, then decoding, the \<^verbatim>\<open>"result"\<close> key, the
  projection and the two counters, each of which may raise.
\<close>

definition extract_try ::
  "response option \<Rightarrow> (pyval \<Rightarrow> exn + pyval) \<Rightarrow> exn + (pyval \<times> pyval \<times> pyval)" where
  "extract_try resp f =
     (case resp of
        None \<Rightarrow> Inl AttributeError
      | Some r \<Rightarrow>
          (case content r of
             None \<Rightarrow> Inl JSONDecodeError
           | Some body \<Rightarrow>
               (case subscript body ''result'' of
                  Inl e \<Rightarrow> Inl e
                | Inr response_result \<Rightarrow>
                    (case f response_result of
                       Inl e \<Rightarrow> Inl e
                     | Inr response_data \<Rightarrow>
                         (case subscript response_result ''requestsLeft'' of
                            Inl e \<Rightarrow> Inl e
                          | Inr requests_left \<Rightarrow>
                              (case subscript response_result ''bitsLeft'' of
                                 Inl e \<Rightarrow> Inl e
                               | Inr bits_left \<Rightarrow>
                                   Inr (response_data, requests_left, bits_left)))))))"

definition default_func :: "pyval \<Rightarrow> exn + pyval" where
  "default_func x = Inr x"

text \<open>
  \<^verbatim>\<open>_extract_result\<close>: \<^verbatim>\<open>except Exception\<close> catches whatever the block raised, logs and
  returns \<^verbatim>\<open>None\<close>; otherwise the triple is returned.
\<close>

definition extract_result ::
  "response option \<Rightarrow> (pyval \<Rightarrow> exn + pyval) option \<Rightarrow> string \<Rightarrow> state
     \<Rightarrow> (pyval \<times> pyval \<times> pyval) option \<times> state" where
  "extract_result resp data_retrieve_func method s =
     (let f = (case data_retrieve_func of None \<Rightarrow> default_func | Some g \<Rightarrow> g) in
      case extract_try resp f of
        Inl e \<Rightarrow> (None, emit ModuleLogger ERROR (decode_error_msg method) s)
      | Inr t \<Rightarrow> (Some t, s))"

text \<open>
  \<^verbatim>\<open>_is_low_quota\<close>: \<^verbatim>\<open>t and x < t\<close> compares only when the threshold is nonzero; the
  first branch returns before the second is looked at. The bits warning goes to the root
  logger.
\<close>

definition is_low_quota :: "pyval \<Rightarrow> pyval \<Rightarrow> state \<Rightarrow> (exn + bool) \<times> state" where
  "is_low_quota requests_left bits_left s =
     (case (if warn_below_quota_requests (self s) \<noteq> 0
            then less_int requests_left (warn_below_quota_requests (self s))
            else Inr False) of
        Inl e \<Rightarrow> (Inl e, s)
      | Inr True \<Rightarrow> (Inr True, emit ModuleLogger WARNING low_request_quota_msg s)
      | Inr False \<Rightarrow>
          (case (if warn_below_quota_bits (self s) \<noteq> 0
                 then less_int bits_left (warn_below_quota_bits (self s))
                 else Inr False) of
             Inl e \<Rightarrow> (Inl e, s)
           | Inr True \<Rightarrow> (Inr True, emit RootLogger WARNING low_bit_quota_msg s)
           | Inr False \<Rightarrow> (Inr False, s)))"

definition log_sucess :: "string \<Rightarrow> state \<Rightarrow> state" where
  "log_sucess method s = emit ModuleLogger DEBUG (success_msg method) s"

text \<open>
  \<^verbatim>\<open>_request\<close>. The \<open>method\<close> argument is not used: every helper is called with the
  literal \<^verbatim>\<open>"generate_integers"\<close>. The result of \<^verbatim>\<open>_extract_result\<close> is unpacked into
  three names, which raises \<^verbatim>\<open>TypeError\<close> when that result is \<^verbatim>\<open>None\<close>.
\<close>

definition request ::
  "transport \<Rightarrow> string \<Rightarrow> pyval \<Rightarrow> (pyval \<Rightarrow> exn + pyval) option \<Rightarrow> state
     \<Rightarrow> (exn + pyval) \<times> state" where
  "request post method request_payload data_retrieve_func s =
     (case robust_http_request post request_payload ''generate_integers'' s of
        (Inl e, s1) \<Rightarrow> (Inl e, s1)
      | (Inr resp, s1) \<Rightarrow>
          (let s2 = (case resp of
                       None \<Rightarrow> s1
                     | Some r \<Rightarrow>
                         snd (is_response_successful (status_code r) ''generate_integers'' s1))
           in case extract_result resp data_retrieve_func ''generate_integers'' s2 of
                (None, s3) \<Rightarrow> (Inl TypeError, s3)
              | (Some (response_data, requests_left, bits_left), s3) \<Rightarrow>
                  (case is_low_quota requests_left bits_left s3 of
                     (Inl e, s4) \<Rightarrow> (Inl e, s4)
                   | (Inr low, s4) \<Rightarrow>
                       (Inr response_data, log_sucess ''generate_integers'' s4))))"

subsection \<open>The public operations\<close>

text \<open>
  The projection every generation call passes as \<^verbatim>\<open>data_retrieve_func\<close>:
  \<^verbatim>\<open>lambda x: x["random"]["data"]\<close>.
\<close>

definition random_data :: "pyval \<Rightarrow> exn + pyval" where
  "random_data x =
     (case subscript x ''random'' of
        Inl e \<Rightarrow> Inl e
      | Inr r \<Rightarrow> subscript r ''data'')"

text \<open>The projection of \<^verbatim>\<open>get_usage\<close>: a dict display of four subscripts, in this order.\<close>

definition usage_fields :: "pyval \<Rightarrow> exn + pyval" where
  "usage_fields x =
     (case subscript x ''bitsLeft'' of
        Inl e \<Rightarrow> Inl e
      | Inr bl \<Rightarrow>
          (case subscript x ''requestsLeft'' of
             Inl e \<Rightarrow> Inl e
           | Inr rl \<Rightarrow>
               (case subscript x ''totalBits'' of
                  Inl e \<Rightarrow> Inl e
                | Inr tb \<Rightarrow>
                    (case subscript x ''totalRequests'' of
                       Inl e \<Rightarrow> Inl e
                     | Inr tr \<Rightarrow>
                         Inr (PDict [(''bits_left'', bl), (''requests_left'', rl),
                                     (''total_bits'', tb), (''total_requests'', tr)])))))"

text \<open>
  Each operation builds its payload from the client and its arguments and runs the
  pipeline. Arguments are not validated, so they are arbitrary values.
\<close>

definition generate_integers_payload ::
  "BasicApi \<Rightarrow> pyval \<Rightarrow> pyval \<Rightarrow> pyval \<Rightarrow> pyval \<Rightarrow> pyval \<Rightarrow> pyval \<Rightarrow> pyval \<Rightarrow> pyval" where
  "generate_integers_payload c num minimum maximum replacement base pregenerateRandomiztion ident =
     PDict [(''jsonrpc'', PStr (version_str c)),
            (''method'', PStr ''generateIntegers''),
            (''params'', PDict [(''apiKey'', PStr (api_key c)),
                                (''n'', num),
                                (''min'', minimum),
                                (''max'', maximum),
                                (''replacement'', replacement),
                                (''base'', base)]),
            (''id'', ident)]"

definition generate_integers ::
  "transport \<Rightarrow> pyval \<Rightarrow> pyval \<Rightarrow> pyval \<Rightarrow> pyval \<Rightarrow> pyval \<Rightarrow> pyval \<Rightarrow> pyval \<Rightarrow> state
     \<Rightarrow> (exn + pyval) \<times> state" where
  "generate_integers post num minimum maximum replacement base pregenerateRandomiztion ident s =
     request post ''generate_integers''
       (generate_integers_payload (self s) num minimum maximum replacement base
          pregenerateRandomiztion ident)
       (Some random_data) s"

text \<open>
  In \<^verbatim>\<open>generate_integer_sequences\<close> the entry \<^verbatim>\<open>"base"\<close> of the parameters is the
  expression \<^verbatim>\<open>list[int]\<close>, not the argument \<open>base\<close>.
\<close>

definition generate_integer_sequences_payload ::
  "BasicApi \<Rightarrow> pyval \<Rightarrow> pyval \<Rightarrow> pyval \<Rightarrow> pyval \<Rightarrow> pyval \<Rightarrow> pyval \<Rightarrow> pyval \<Rightarrow> pyval" where
  "generate_integer_sequences_payload c num length_arg minimum maximum replacement base ident =
     PDict [(''jsonrpc'', PStr (version_str c)),
            (''method'', PStr ''generateIntegerSequences''),
            (''params'', PDict [(''apiKey'', PStr (api_key c)),
                                (''n'', num),
                                (''length'', length_arg),
                                (''min'', minimum),
                                (''max'', maximum),
                                (''replacement'', replacement),
                                (''base'', PType ''list[int]'')]),
            (''id'', ident)]"

definition generate_integer_sequences ::
  "transport \<Rightarrow> pyval \<Rightarrow> pyval \<Rightarrow> pyval \<Rightarrow> pyval \<Rightarrow> pyval \<Rightarrow> pyval \<Rightarrow> pyval \<Rightarrow> state
     \<Rightarrow> (exn + pyval) \<times> state" where
  "generate_integer_sequences post num length_arg minimum maximum replacement base ident s =
     request post ''generate_integer_sequences''
       (generate_integer_sequences_payload (self s) num length_arg minimum maximum replacement
          base ident)
       (Some random_data) s"

definition generate_decimal_fractions_payload ::
  "BasicApi \<Rightarrow> pyval \<Rightarrow> pyval \<Rightarrow> pyval \<Rightarrow> pyval \<Rightarrow> pyval" where
  "generate_decimal_fractions_payload c num decimal_places replacement ident =
     PDict [(''jsonrpc'', PStr (version_str c)),
            (''method'', PStr ''generateDecimalFractions''),
            (''params'', PDict [(''apiKey'', PStr (api_key c)),
                                (''n'', num),
                                (''decimalPlaces'', decimal_places),
                                (''replacement'', replacement)]),
            (''id'', ident)]"

definition generate_decimal_fractions ::
  "transport \<Rightarrow> pyval \<Rightarrow> pyval \<Rightarrow> pyval \<Rightarrow> pyval \<Rightarrow> state \<Rightarrow> (exn + pyval) \<times> state" where
  "generate_decimal_fractions post num decimal_places replacement ident s =
     request post ''generate_decimal_fractions''
       (generate_decimal_fractions_payload (self s) num decimal_places replacement ident)
       (Some random_data) s"

definition generate_gaussians_payload ::
  "BasicApi \<Rightarrow> pyval \<Rightarrow> pyval \<Rightarrow> pyval \<Rightarrow> pyval \<Rightarrow> pyval \<Rightarrow> pyval" where
  "generate_gaussians_payload c num mean standard_deviation significant_digits ident =
     PDict [(''jsonrpc'', PStr (version_str c)),
            (''method'', PStr ''generateGaussians''),
            (''params'', PDict [(''apiKey'', PStr (api_key c)),
                                (''n'', num),
                                (''mean'', mean),
                                (''standardDeviation'', standard_deviation),
                                (''significantDigits'', significant_digits)]),
            (''id'', ident)]"

definition generate_gaussians ::
  "transport \<Rightarrow> pyval \<Rightarrow> pyval \<Rightarrow> pyval \<Rightarrow> pyval \<Rightarrow> pyval \<Rightarrow> state
     \<Rightarrow> (exn + pyval) \<times> state" where
  "generate_gaussians post num mean standard_deviation significant_digits ident s =
     request post ''generate_gaussians''
       (generate_gaussians_payload (self s) num mean standard_deviation significant_digits
          ident)
       (Some random_data) s"

definition generate_strings_payload ::
  "BasicApi \<Rightarrow> pyval \<Rightarrow> pyval \<Rightarrow> pyval \<Rightarrow> pyval \<Rightarrow> pyval \<Rightarrow> pyval" where
  "generate_strings_payload c num length_arg characters replacement ident =
     PDict [(''jsonrpc'', PStr (version_str c)),
            (''method'', PStr ''generateStrings''),
            (''params'', PDict [(''apiKey'', PStr (api_key c)),
                                (''n'', num),
                                (''length'', length_arg),
                                (''characters'', characters),
                                (''replacement'', replacement)]),
            (''id'', ident)]"

definition generate_strings ::
  "transport \<Rightarrow> pyval \<Rightarrow> pyval \<Rightarrow> pyval \<Rightarrow> pyval \<Rightarrow> pyval \<Rightarrow> state
     \<Rightarrow> (exn + pyval) \<times> state" where
  "generate_strings post num length_arg characters replacement ident s =
     request post ''generate_strings''
       (generate_strings_payload (self s) num length_arg characters replacement ident)
       (Some random_data) s"

definition generate_uuids_payload :: "BasicApi \<Rightarrow> pyval \<Rightarrow> pyval \<Rightarrow> pyval" where
  "generate_uuids_payload c num ident =
     PDict [(''jsonrpc'', PStr (version_str c)),
            (''method'', PStr ''generateUUIDs''),
            (''params'', PDict [(''apiKey'', PStr (api_key c)), (''n'', num)]),
            (''id'', ident)]"

definition generate_uuids ::
  "transport \<Rightarrow> pyval \<Rightarrow> pyval \<Rightarrow> state \<Rightarrow> (exn + pyval) \<times> state" where
  "generate_uuids post num ident s =
     request post ''generate_uuids'' (generate_uuids_payload (self s) num ident)
       (Some random_data) s"

definition generate_blobs_payload :: "BasicApi \<Rightarrow> pyval \<Rightarrow> pyval \<Rightarrow> pyval \<Rightarrow> pyval" where
  "generate_blobs_payload c num size_arg ident =
     PDict [(''jsonrpc'', PStr (version_str c)),
            (''method'', PStr ''generateBlobs''),
            (''params'', PDict [(''apiKey'', PStr (api_key c)),
                                (''n'', num),
                                (''size'', size_arg)]),
            (''id'', ident)]"

definition generate_blobs ::
  "transport \<Rightarrow> pyval \<Rightarrow> pyval \<Rightarrow> pyval \<Rightarrow> state \<Rightarrow> (exn + pyval) \<times> state" where
  "generate_blobs post num size_arg ident s =
     request post ''generate_blobs'' (generate_blobs_payload (self s) num size_arg ident)
       (Some random_data) s"

definition get_usage_payload :: "BasicApi \<Rightarrow> pyval \<Rightarrow> pyval" where
  "get_usage_payload c ident =
     PDict [(''jsonrpc'', PStr (version_str c)),
            (''method'', PStr ''getUsage''),
            (''params'', PDict [(''apiKey'', PStr (api_key c))]),
            (''id'', ident)]"

definition get_usage :: "transport \<Rightarrow> pyval \<Rightarrow> state \<Rightarrow> (exn + pyval) \<times> state" where
  "get_usage post ident s =
     request post ''get_usage'' (get_usage_payload (self s) ident) (Some usage_fields) s"

subsection \<open>A call of any public operation\<close>

text \<open>
  The eight public methods with their arguments, in the order of the source, and the call
  of one of them on a client.
\<close>

datatype operation =
    GenerateIntegers pyval pyval pyval pyval pyval pyval pyval
  | GenerateIntegerSequences pyval pyval pyval pyval pyval pyval pyval
  | GenerateDecimalFractions pyval pyval pyval pyval
  | GenerateGaussians pyval pyval pyval pyval pyval
  | GenerateStrings pyval pyval pyval pyval pyval
  | GenerateUUIDs pyval pyval
  | GenerateBlobs pyval pyval pyval
  | GetUsage pyval

fun invoke :: "transport \<Rightarrow> operation \<Rightarrow> state \<Rightarrow> (exn + pyval) \<times> state" where
  "invoke post (GenerateIntegers n lo hi r b p i) s = generate_integers post n lo hi r b p i s"
| "invoke post (GenerateIntegerSequences n l lo hi r b i) s =
     generate_integer_sequences post n l lo hi r b i s"
| "invoke post (GenerateDecimalFractions n d r i) s = generate_decimal_fractions post n d r i s"
| "invoke post (GenerateGaussians n m sd sg i) s = generate_gaussians post n m sd sg i s"
| "invoke post (GenerateStrings n l cs r i) s = generate_strings post n l cs r i s"
| "invoke post (GenerateUUIDs n i) s = generate_uuids post n i s"
| "invoke post (GenerateBlobs n sz i) s = generate_blobs post n sz i s"
| "invoke post (GetUsage i) s = get_usage post i s"

text \<open>The projection an operation passes to the pipeline.\<close>

fun projection :: "operation \<Rightarrow> pyval \<Rightarrow> exn + pyval" where
  "projection (GetUsage i) = usage_fields"
| "projection opn = random_data"

subsection \<open>Transports with a fixed outcome\<close>

text \<open>
  The transport of the test suite: \<^verbatim>\<open>requests.post\<close> patched to hand back one response
  whatever it is called with, or to raise.
\<close>

definition mock_post_response :: "response \<Rightarrow> transport" where
  "mock_post_response r = (\<lambda>u p. Returns r)"

definition mock_post_raises :: "exn \<Rightarrow> transport" where
  "mock_post_raises e = (\<lambda>u p. Raises e)"

text \<open>The state after the status check of \<^verbatim>\<open>_request\<close> on a response.\<close>

definition after_status :: "response \<Rightarrow> state \<Rightarrow> state" where
  "after_status r s = snd (is_response_successful (status_code r) ''generate_integers'' s)"

text \<open>Every event the pipeline can log.\<close>

definition pipeline_events :: "event set" where
  "pipeline_events =
     {Event ModuleLogger ERROR (connection_error_msg ''generate_integers''),
      Event ModuleLogger WARNING (status_warning_msg ''generate_integers''),
      Event ModuleLogger ERROR (decode_error_msg ''generate_integers''),
      Event ModuleLogger DEBUG (success_msg ''generate_integers''),
      Event ModuleLogger WARNING low_request_quota_msg,
      Event RootLogger WARNING low_bit_quota_msg}"

text \<open>
  The values \<^verbatim>\<open>x < t\<close> accepts for an integer \<open>t\<close>: integers, booleans and floats.
\<close>

fun numeric :: "pyval \<Rightarrow> bool" where
  "numeric (PInt n) = True"
| "numeric (PBool b) = True"
| "numeric (PFloat f) = True"
| "numeric PNone = False"
| "numeric (PStr s) = False"
| "numeric (PList xs) = False"
| "numeric (PDict d) = False"
| "numeric (PType ty) = False"

text \<open>
  A response is comparable for a client when each counter it carries is a number or is
  not compared by that client, its threshold being zero.
\<close>

definition counters_comparable :: "response \<Rightarrow> BasicApi \<Rightarrow> bool" where
  "counters_comparable r c =
     (case content r of
        None \<Rightarrow> True
      | Some body \<Rightarrow>
          (case subscript body ''result'' of
             Inl e \<Rightarrow> True
           | Inr res \<Rightarrow>
               (case subscript res ''requestsLeft'' of
                  Inl e \<Rightarrow> True
                | Inr v \<Rightarrow> numeric v \<or> warn_below_quota_requests c = 0)
               \<and> (case subscript res ''bitsLeft'' of
                    Inl e \<Rightarrow> True
                  | Inr v \<Rightarrow> numeric v \<or> warn_below_quota_bits c = 0)))"

section \<open>The pipeline, case by case\<close>

lemma self_emit [simp]: "self (emit lg lv msg s) = self s"
  by (simp add: emit_def)

lemma log_emit [simp]: "log_stream (emit lg lv msg s) = log_stream s @ [Event lg lv msg]"
  by (simp add: emit_def)

lemma request_raises:
  "post (url (self s)) p = Raises e \<Longrightarrow>
   request post m p f s =
     (if e = ConnectionError
      then (Inl TypeError,
            emit ModuleLogger ERROR (decode_error_msg ''generate_integers'')
              (emit ModuleLogger ERROR (connection_error_msg ''generate_integers'') s))
      else (Inl e, s))"
  by (simp add: request_def robust_http_request_def extract_result_def extract_try_def)

lemma request_returns:
  "post (url (self s)) p = Returns r \<Longrightarrow>
   request post m p f s =
     (case extract_try (Some r) (case f of None \<Rightarrow> default_func | Some g \<Rightarrow> g) of
        Inl e \<Rightarrow> (Inl TypeError,
                  emit ModuleLogger ERROR (decode_error_msg ''generate_integers'')
                    (after_status r s))
      | Inr (d, rl, bl) \<Rightarrow>
          (case is_low_quota rl bl (after_status r s) of
             (Inl e, s4) \<Rightarrow> (Inl e, s4)
           | (Inr low, s4) \<Rightarrow> (Inr d, log_sucess ''generate_integers'' s4)))"
  by (simp add: request_def robust_http_request_def extract_result_def after_status_def
      split: sum.splits prod.splits)

lemma invoke_request:
  "\<exists>m p. invoke post opn s = request post m p (Some (projection opn)) s"
  by (cases opn)
     (auto simp: generate_integers_def generate_integer_sequences_def
        generate_decimal_fractions_def generate_gaussians_def generate_strings_def
        generate_uuids_def generate_blobs_def get_usage_def)

lemma less_int_raises: "less_int v t = Inl e \<Longrightarrow> e = TypeError"
  by (induction v t rule: less_int.induct) auto

lemma is_low_quota_self [simp]: "self (snd (is_low_quota rl bl s)) = self s"
  by (simp add: is_low_quota_def split: sum.splits bool.splits)

lemma is_low_quota_raises: "fst (is_low_quota rl bl s) = Inl e \<Longrightarrow> e = TypeError"
  by (auto simp: is_low_quota_def split: sum.splits bool.splits if_splits dest: less_int_raises)

lemma is_low_quota_int:
  "is_low_quota (PInt rl) (PInt bl) s =
     (if warn_below_quota_requests (self s) \<noteq> 0 \<and> rl < warn_below_quota_requests (self s)
      then (Inr True, emit ModuleLogger WARNING low_request_quota_msg s)
      else if warn_below_quota_bits (self s) \<noteq> 0 \<and> bl < warn_below_quota_bits (self s)
      then (Inr True, emit RootLogger WARNING low_bit_quota_msg s)
      else (Inr False, s))"
  by (simp add: is_low_quota_def)

lemma after_status_self [simp]: "self (after_status r s) = self s"
  by (simp add: after_status_def is_response_successful_def)

lemma request_self: "self (snd (request post m p f s)) = self s"
proof (cases "post (url (self s)) p")
  case (Returns r)
  let ?g = "case f of None \<Rightarrow> default_func | Some g \<Rightarrow> g"
  show ?thesis
  proof (cases "extract_try (Some r) ?g")
    case (Inl e)
    with Returns show ?thesis by (simp add: request_returns)
  next
    case (Inr t)
    obtain d rl bl where t: "t = (d, rl, bl)" by (cases t)
    obtain q s4 where q: "is_low_quota rl bl (after_status r s) = (q, s4)"
      by (cases "is_low_quota rl bl (after_status r s)")
    have "self (snd (is_low_quota rl bl (after_status r s))) = self s" by simp
    then have s4: "self s4 = self s" by (simp add: q)
    from Returns Inr t q s4 show ?thesis
      by (cases q) (simp_all add: request_returns log_sucess_def)
  qed
next
  case (Raises e)
  then show ?thesis by (simp add: request_raises)
qed

lemma request_mock_returns:
  "request (mock_post_response r) m p f s =
     (case extract_try (Some r) (case f of None \<Rightarrow> default_func | Some g \<Rightarrow> g) of
        Inl e \<Rightarrow> (Inl TypeError,
                  emit ModuleLogger ERROR (decode_error_msg ''generate_integers'')
                    (after_status r s))
      | Inr (d, rl, bl) \<Rightarrow>
          (case is_low_quota rl bl (after_status r s) of
             (Inl e, s4) \<Rightarrow> (Inl e, s4)
           | (Inr low, s4) \<Rightarrow> (Inr d, log_sucess ''generate_integers'' s4)))"
  by (rule request_returns) (simp add: mock_post_response_def)

lemma invoke_mock_returns:
  "invoke (mock_post_response r) opn s =
     (case extract_try (Some r) (projection opn) of
        Inl e \<Rightarrow> (Inl TypeError,
                  emit ModuleLogger ERROR (decode_error_msg ''generate_integers'')
                    (after_status r s))
      | Inr (d, rl, bl) \<Rightarrow>
          (case is_low_quota rl bl (after_status r s) of
             (Inl e, s4) \<Rightarrow> (Inl e, s4)
           | (Inr low, s4) \<Rightarrow> (Inr d, log_sucess ''generate_integers'' s4)))"
proof -
  obtain m p where "invoke (mock_post_response r) opn s
      = request (mock_post_response r) m p (Some (projection opn)) s"
    using invoke_request by blast
  then show ?thesis by (simp add: request_mock_returns)
qed

lemma well_formed_returns:
  assumes "content r = Some body"
    and "subscript body ''result'' = Inr res"
    and "projection opn res = Inr d"
    and "subscript res ''requestsLeft'' = Inr (PInt rl)"
    and "subscript res ''bitsLeft'' = Inr (PInt bl)"
  shows "fst (invoke (mock_post_response r) opn s) = Inr d"
proof -
  have "extract_try (Some r) (projection opn) = Inr (d, PInt rl, PInt bl)"
    using assms by (simp add: extract_try_def)
  then show ?thesis by (simp add: invoke_mock_returns is_low_quota_int)
qed

lemma after_status_non_2xx:
  "\<not> (200 \<le> status_code r \<and> status_code r \<le> 299) \<Longrightarrow>
   after_status r s = emit ModuleLogger WARNING (status_warning_msg ''generate_integers'') s"
  by (simp add: after_status_def is_response_successful_def)

lemma after_status_200 [simp]: "after_status (r\<lparr>status_code := 200\<rparr>) s = s"
  by (simp add: after_status_def is_response_successful_def)

lemma extract_try_status [simp]:
  "extract_try (Some (r\<lparr>status_code := c\<rparr>)) f = extract_try (Some r) f"
  by (simp add: extract_try_def)

lemma is_low_quota_log:
  "\<exists>new. log_stream (snd (is_low_quota rl bl s)) = log_stream s @ new
      \<and> set new \<subseteq> {Event ModuleLogger WARNING low_request_quota_msg,
                    Event RootLogger WARNING low_bit_quota_msg}"
  by (auto simp: is_low_quota_def split: sum.splits bool.splits)

lemma after_status_log:
  "\<exists>new. log_stream (after_status r s) = log_stream s @ new
      \<and> set new \<subseteq> {Event ModuleLogger WARNING (status_warning_msg ''generate_integers'')}"
  by (simp add: after_status_def is_response_successful_def)

lemma request_log:
  "\<exists>new. log_stream (snd (request post m p f s)) = log_stream s @ new
      \<and> set new \<subseteq> pipeline_events"
proof (cases "post (url (self s)) p")
  case (Raises e)
  then show ?thesis by (simp add: request_raises pipeline_events_def)
next
  case (Returns r)
  let ?g = "case f of None \<Rightarrow> default_func | Some g \<Rightarrow> g"
  obtain n1 where n1: "log_stream (after_status r s) = log_stream s @ n1"
    "set n1 \<subseteq> pipeline_events"
    using after_status_log [of r s] by (auto simp: pipeline_events_def)
  show ?thesis
  proof (cases "extract_try (Some r) ?g")
    case (Inl e)
    with Returns n1 show ?thesis by (simp add: request_returns pipeline_events_def)
  next
    case (Inr t)
    obtain d rl bl where t: "t = (d, rl, bl)" by (cases t)
    obtain q s4 where q: "is_low_quota rl bl (after_status r s) = (q, s4)"
      by (cases "is_low_quota rl bl (after_status r s)")
    obtain n2 where "log_stream (snd (is_low_quota rl bl (after_status r s)))
        = log_stream (after_status r s) @ n2" and n2: "set n2 \<subseteq> pipeline_events"
      using is_low_quota_log [of rl bl "after_status r s"] by (auto simp: pipeline_events_def)
    then have s4: "log_stream s4 = log_stream s @ (n1 @ n2)" by (simp add: q n1)
    have "set (n1 @ n2) \<subseteq> pipeline_events" using n1 n2 by simp
    moreover have "set (n1 @ n2 @ [Event ModuleLogger DEBUG (success_msg ''generate_integers'')])
        \<subseteq> pipeline_events"
      using n1 n2 by (simp add: pipeline_events_def)
    ultimately show ?thesis using Returns Inr t q s4
      by (cases q) (simp_all add: request_returns log_sucess_def)
  qed
qed

lemma request_method_ignored: "request post m p f s = request post m' p f s"
  by (simp add: request_def)

lemma request_thresholds:
  assumes "url (self s1) = url (self s2)"
  shows "fst (request post m p f s1) = fst (request post m p f s2)
         \<or> fst (request post m p f s1) = Inl TypeError
         \<or> fst (request post m p f s2) = Inl TypeError"
proof (cases "post (url (self s1)) p")
  case (Raises e)
  then have "post (url (self s2)) p = Raises e" using assms by simp
  with Raises show ?thesis by (simp add: request_raises)
next
  case (Returns r)
  then have R2: "post (url (self s2)) p = Returns r" using assms by simp
  let ?g = "case f of None \<Rightarrow> default_func | Some g \<Rightarrow> g"
  show ?thesis
  proof (cases "extract_try (Some r) ?g")
    case (Inl e)
    with Returns show ?thesis by (simp add: request_returns)
  next
    case (Inr t)
    obtain d rl bl where t: "t = (d, rl, bl)" by (cases t)
    obtain q1 t1 where q1: "is_low_quota rl bl (after_status r s1) = (q1, t1)"
      by (cases "is_low_quota rl bl (after_status r s1)")
    obtain q2 t2 where q2: "is_low_quota rl bl (after_status r s2) = (q2, t2)"
      by (cases "is_low_quota rl bl (after_status r s2)")
    have r1: "fst (request post m p f s1) = (case q1 of Inl e \<Rightarrow> Inl e | Inr low \<Rightarrow> Inr d)"
      using Returns Inr t q1 by (simp add: request_returns split: sum.splits)
    have r2: "fst (request post m p f s2) = (case q2 of Inl e \<Rightarrow> Inl e | Inr low \<Rightarrow> Inr d)"
      using R2 Inr t q2 by (simp add: request_returns split: sum.splits)
    have e1: "q1 = Inl e \<Longrightarrow> e = TypeError" for e
      using is_low_quota_raises [of rl bl "after_status r s1" e] q1 by simp
    have e2: "q2 = Inl e \<Longrightarrow> e = TypeError" for e
      using is_low_quota_raises [of rl bl "after_status r s2" e] q2 by simp
    show ?thesis
      unfolding r1 r2 using e1 e2 by (cases q1; cases q2) auto
  qed
qed

lemma extract_try_fails_iff:
  "(\<exists>e. extract_try (Some r) f = Inl e) \<longleftrightarrow>
   \<not> (\<exists>body res d rl bl. content r = Some body \<and> subscript body ''result'' = Inr res
        \<and> f res = Inr d \<and> subscript res ''requestsLeft'' = Inr rl
        \<and> subscript res ''bitsLeft'' = Inr bl)"
  by (auto simp: extract_try_def split: option.splits sum.splits)

lemma less_int_numeric: "numeric v \<Longrightarrow> \<exists>b. less_int v t = Inr b"
  by (induction v t rule: less_int.induct) auto

lemma is_low_quota_returns:
  assumes "numeric rl \<or> warn_below_quota_requests (self s) = 0"
    and "numeric bl \<or> warn_below_quota_bits (self s) = 0"
  shows "\<exists>b. fst (is_low_quota rl bl s) = Inr b"
proof -
  have "\<exists>x. (if warn_below_quota_requests (self s) \<noteq> 0
            then less_int rl (warn_below_quota_requests (self s))
            else Inr False) = Inr x"
    using assms(1) less_int_numeric [of rl "warn_below_quota_requests (self s)"] by auto
  then obtain x where x: "(if warn_below_quota_requests (self s) \<noteq> 0
            then less_int rl (warn_below_quota_requests (self s))
            else Inr False) = Inr x" ..
  have "\<exists>y. (if warn_below_quota_bits (self s) \<noteq> 0
            then less_int bl (warn_below_quota_bits (self s))
            else Inr False) = Inr y"
    using assms(2) less_int_numeric [of bl "warn_below_quota_bits (self s)"] by auto
  then obtain y where y: "(if warn_below_quota_bits (self s) \<noteq> 0
            then less_int bl (warn_below_quota_bits (self s))
            else Inr False) = Inr y" ..
  show ?thesis
    unfolding is_low_quota_def x y by (cases x; cases y) auto
qed

lemma extract_try_fields:
  assumes "extract_try (Some r) f = Inr (d, rl, bl)"
  shows "\<exists>body res. content r = Some body \<and> subscript body ''result'' = Inr res
      \<and> f res = Inr d \<and> subscript res ''requestsLeft'' = Inr rl
      \<and> subscript res ''bitsLeft'' = Inr bl"
  using assms by (auto simp: extract_try_def split: option.splits sum.splits)

lemma request_comparable:
  assumes "post (url (self s)) p = Returns r" and "counters_comparable r (self s)"
  shows "fst (request post m p f s) =
     (case extract_try (Some r) (case f of None \<Rightarrow> default_func | Some g \<Rightarrow> g) of
        Inl e \<Rightarrow> Inl TypeError
      | Inr (d, rl, bl) \<Rightarrow> Inr d)"
proof (cases "extract_try (Some r) (case f of None \<Rightarrow> default_func | Some g \<Rightarrow> g)")
  case (Inl e)
  with assms(1) show ?thesis by (simp add: request_returns)
next
  case (Inr t)
  obtain d rl bl where t: "t = (d, rl, bl)" by (cases t)
  from Inr t obtain body res where f: "content r = Some body" "subscript body ''result'' = Inr res"
      "subscript res ''requestsLeft'' = Inr rl" "subscript res ''bitsLeft'' = Inr bl"
    using extract_try_fields by blast
  with assms(2) have "numeric rl \<or> warn_below_quota_requests (self s) = 0"
      "numeric bl \<or> warn_below_quota_bits (self s) = 0"
    by (simp_all add: counters_comparable_def)
  then have "\<exists>b. fst (is_low_quota rl bl (after_status r s)) = Inr b"
    by (intro is_low_quota_returns) simp_all
  then obtain b s4 where "is_low_quota rl bl (after_status r s) = (Inr b, s4)"
    by (cases "is_low_quota rl bl (after_status r s)") auto
  with assms(1) Inr t show ?thesis by (simp add: request_returns)
qed

lemma request_same_outcome:
  assumes "url (self s1) = url (self s2)"
    and "\<forall>u p r. post u p = Returns r \<longrightarrow>
           counters_comparable r (self s1) \<and> counters_comparable r (self s2)"
  shows "fst (request post m p f s1) = fst (request post m p f s2)"
proof (cases "post (url (self s1)) p")
  case (Raises e)
  then have "post (url (self s2)) p = Raises e" using assms(1) by simp
  with Raises show ?thesis by (simp add: request_raises)
next
  case (Returns r)
  then have R2: "post (url (self s2)) p = Returns r" using assms(1) by simp
  from Returns assms(2) have c: "counters_comparable r (self s1)" "counters_comparable r (self s2)"
    by blast+
  show ?thesis
    using request_comparable [of post s1 p r m f] request_comparable [of post s2 p r m f]
      Returns R2 c by simp
qed

section \<open>Failures of the transport and of the extraction\<close>

text \<open>
  C1. The claim is that an operation whose transport call fails with a connection error
  returns \<^verbatim>\<open>None\<close> and raises nothing. The code does otherwise: the connection error
  is caught and logged, the extraction then fails on the absent response and is logged
  too, and the unpacking of its \<^verbatim>\<open>None\<close> result raises \<^verbatim>\<open>TypeError\<close> to the caller.
  This holds for each of the eight operations, whatever its arguments.
\<close>

theorem connection_error_raises_type_error:
  "invoke (mock_post_raises ConnectionError) opn s =
     (Inl TypeError,
      emit ModuleLogger ERROR (decode_error_msg ''generate_integers'')
        (emit ModuleLogger ERROR (connection_error_msg ''generate_integers'') s))"
proof -
  obtain m p where "invoke (mock_post_raises ConnectionError) opn s
      = request (mock_post_raises ConnectionError) m p (Some (projection opn)) s"
    using invoke_request by blast
  moreover have "mock_post_raises ConnectionError (url (self s)) p = Raises ConnectionError"
    by (simp add: mock_post_raises_def)
  ultimately show ?thesis by (simp add: request_raises)
qed

text \<open>
  The same unpacking raises when the extraction fails on a response: on a body that is not
  JSON, and on the body \<^verbatim>\<open>{"result": {}}\<close>, every operation logs the extraction
  failure and then raises \<^verbatim>\<open>TypeError\<close>.
\<close>

theorem extraction_failure_raises_type_error:
  "invoke (mock_post_response \<lparr>status_code = 200, content = None\<rparr>) opn s =
     (Inl TypeError, emit ModuleLogger ERROR (decode_error_msg ''generate_integers'') s)
   \<and> invoke (mock_post_response
        \<lparr>status_code = 200, content = Some (PDict [(''result'', PDict [])])\<rparr>) opn s =
     (Inl TypeError, emit ModuleLogger ERROR (decode_error_msg ''generate_integers'') s)"
proof -
  let ?r1 = "\<lparr>status_code = 200, content = None\<rparr>"
  let ?r2 = "\<lparr>status_code = 200, content = Some (PDict [(''result'', PDict [])])\<rparr>"
  have st: "after_status ?r1 s = s" "after_status ?r2 s = s"
    by (simp_all add: after_status_def is_response_successful_def)
  have e1: "extract_try (Some ?r1) (projection opn) = Inl JSONDecodeError"
    by (simp add: extract_try_def)
  have e2: "extract_try (Some ?r2) (projection opn) = Inl KeyError"
    by (cases opn) (simp_all add: extract_try_def random_data_def usage_fields_def)
  obtain m1 p1 where i1: "invoke (mock_post_response ?r1) opn s
      = request (mock_post_response ?r1) m1 p1 (Some (projection opn)) s"
    using invoke_request by blast
  obtain m2 p2 where i2: "invoke (mock_post_response ?r2) opn s
      = request (mock_post_response ?r2) m2 p2 (Some (projection opn)) s"
    using invoke_request by blast
  have "mock_post_response ?r1 (url (self s)) p1 = Returns ?r1"
    by (simp add: mock_post_response_def)
  then have a: "request (mock_post_response ?r1) m1 p1 (Some (projection opn)) s =
      (Inl TypeError, emit ModuleLogger ERROR (decode_error_msg ''generate_integers'') s)"
    by (simp add: request_returns e1 st)
  have "mock_post_response ?r2 (url (self s)) p2 = Returns ?r2"
    by (simp add: mock_post_response_def)
  then have b: "request (mock_post_response ?r2) m2 p2 (Some (projection opn)) s =
      (Inl TypeError, emit ModuleLogger ERROR (decode_error_msg ''generate_integers'') s)"
    by (simp add: request_returns e2 st)
  from i1 i2 a b show ?thesis by simp
qed

text \<open>
  C2, as amended. When the extraction raises (the body cannot be decoded, or
  \<^verbatim>\<open>"result"\<close>, the data of the operation, \<^verbatim>\<open>"requestsLeft"\<close> or \<^verbatim>\<open>"bitsLeft"\<close>
  cannot be read from it), every operation logs the extraction failure after the status
  check and logs nothing else: no quota warning, no success. When the five subscripts
  succeed, whatever the types of the values they find, the extraction succeeds with those
  values and the quota check runs on the counters.
\<close>

theorem extraction_failure_stops_pipeline:
  "(\<not> (\<exists>body res d rl bl. content r = Some body \<and> subscript body ''result'' = Inr res
          \<and> projection opn res = Inr d \<and> subscript res ''requestsLeft'' = Inr rl
          \<and> subscript res ''bitsLeft'' = Inr bl)
     \<longrightarrow> log_stream (snd (invoke (mock_post_response r) opn s)) =
           log_stream s
           @ (if 200 \<le> status_code r \<and> status_code r \<le> 299 then []
              else [Event ModuleLogger WARNING (status_warning_msg ''generate_integers'')])
           @ [Event ModuleLogger ERROR (decode_error_msg ''generate_integers'')])
   \<and> (content r = Some body \<and> subscript body ''result'' = Inr res
        \<and> projection opn res = Inr d \<and> subscript res ''requestsLeft'' = Inr rl
        \<and> subscript res ''bitsLeft'' = Inr bl
     \<longrightarrow> extract_try (Some r) (projection opn) = Inr (d, rl, bl)
         \<and> invoke (mock_post_response r) opn s =
             (case is_low_quota rl bl (after_status r s) of
                (Inl e, s4) \<Rightarrow> (Inl e, s4)
              | (Inr low, s4) \<Rightarrow> (Inr d, log_sucess ''generate_integers'' s4)))"
proof (intro conjI impI)
  assume "\<not> (\<exists>body res d rl bl. content r = Some body \<and> subscript body ''result'' = Inr res
          \<and> projection opn res = Inr d \<and> subscript res ''requestsLeft'' = Inr rl
          \<and> subscript res ''bitsLeft'' = Inr bl)"
  then obtain e where "extract_try (Some r) (projection opn) = Inl e"
    using extract_try_fails_iff [of r "projection opn"] by blast
  then show "log_stream (snd (invoke (mock_post_response r) opn s)) =
           log_stream s
           @ (if 200 \<le> status_code r \<and> status_code r \<le> 299 then []
              else [Event ModuleLogger WARNING (status_warning_msg ''generate_integers'')])
           @ [Event ModuleLogger ERROR (decode_error_msg ''generate_integers'')]"
    by (simp add: invoke_mock_returns after_status_def is_response_successful_def)
next
  assume a: "content r = Some body \<and> subscript body ''result'' = Inr res
        \<and> projection opn res = Inr d \<and> subscript res ''requestsLeft'' = Inr rl
        \<and> subscript res ''bitsLeft'' = Inr bl"
  then show e: "extract_try (Some r) (projection opn) = Inr (d, rl, bl)"
    by (simp add: extract_try_def)
  show "invoke (mock_post_response r) opn s =
             (case is_low_quota rl bl (after_status r s) of
                (Inl e, s4) \<Rightarrow> (Inl e, s4)
              | (Inr low, s4) \<Rightarrow> (Inr d, log_sucess ''generate_integers'' s4))"
    by (simp add: invoke_mock_returns e)
qed

text \<open>
  Two instances of C2: \<^verbatim>\<open>get_usage()\<close> against \<^verbatim>\<open>{"result": {}}\<close> on a client with
  both thresholds at 5 logs the extraction failure only; a result whose \<^verbatim>\<open>bitsLeft\<close>
  is the string \<^verbatim>\<open>"lots"\<close> is extracted as it is.
\<close>

theorem extraction_failure_witness:
  "log_stream (snd (get_usage
      (mock_post_response \<lparr>status_code = 200, content = Some (PDict [(''result'', PDict [])])\<rparr>)
      (PInt 1)
      \<lparr>self = init ''test_api_key'' 4 ''4.0'' 5 5, log_stream = []\<rparr>))
   = [Event ModuleLogger ERROR (decode_error_msg ''generate_integers'')]
   \<and> extract_try
        (Some \<lparr>status_code = 200,
               content = Some (PDict [(''result'',
                 PDict [(''random'', PDict [(''data'', PList [PInt 7])]),
                        (''requestsLeft'', PInt 1),
                        (''bitsLeft'', PStr ''lots'')])])\<rparr>)
        random_data
      = Inr (PList [PInt 7], PInt 1, PStr ''lots'')"
  using extraction_failure_stops_pipeline
    [of "\<lparr>status_code = 200, content = Some (PDict [(''result'', PDict [])])\<rparr>"
        "GetUsage (PInt 1)"
        "\<lparr>self = init ''test_api_key'' 4 ''4.0'' 5 5, log_stream = []\<rparr>",
     THEN conjunct1]
    extraction_failure_stops_pipeline
    [of "\<lparr>status_code = 200,
               content = Some (PDict [(''result'',
                 PDict [(''random'', PDict [(''data'', PList [PInt 7])]),
                        (''requestsLeft'', PInt 1),
                        (''bitsLeft'', PStr ''lots'')])])\<rparr>"
        "GenerateUUIDs (PInt 1) (PInt 1)" _
        "PDict [(''result'',
                 PDict [(''random'', PDict [(''data'', PList [PInt 7])]),
                        (''requestsLeft'', PInt 1),
                        (''bitsLeft'', PStr ''lots'')])]"
        "PDict [(''random'', PDict [(''data'', PList [PInt 7])]),
                        (''requestsLeft'', PInt 1),
                        (''bitsLeft'', PStr ''lots'')]"
        "PList [PInt 7]" "PInt 1" "PStr ''lots''",
     THEN conjunct2]
  by (simp add: usage_fields_def random_data_def)

text \<open>
  C2 as stated fails: with \<^verbatim>\<open>bitsLeft\<close> mistyped as the string \<^verbatim>\<open>"lots"\<close>,
  \<^verbatim>\<open>generate_integers\<close> on a client with a requests threshold of 10 does not
  short-circuit: the quota check runs and warns that \<^verbatim>\<open>requestsLeft = 1\<close> is low, the
  success is logged and the data is returned.
\<close>

theorem mistyped_counter_counterexample:
  "generate_integers
     (mock_post_response
        \<lparr>status_code = 200,
         content = Some (PDict [(''result'',
           PDict [(''random'', PDict [(''data'', PList [PInt 7])]),
                  (''requestsLeft'', PInt 1),
                  (''bitsLeft'', PStr ''lots'')])])\<rparr>)
     (PInt 1) (PInt 1) (PInt 10) (PBool True) (PInt 10) PNone (PInt 1)
     \<lparr>self = \<lparr>url = ''https://api.random.org/json-rpc/4/invoke'', api_key = ''test_api_key'',
               version_str = ''4.0'', warn_below_quota_requests = 10,
               warn_below_quota_bits = 0\<rparr>,
      log_stream = []\<rparr>
   = (Inr (PList [PInt 7]),
      \<lparr>self = \<lparr>url = ''https://api.random.org/json-rpc/4/invoke'', api_key = ''test_api_key'',
               version_str = ''4.0'', warn_below_quota_requests = 10,
               warn_below_quota_bits = 0\<rparr>,
       log_stream = [Event ModuleLogger WARNING low_request_quota_msg,
                     Event ModuleLogger DEBUG (success_msg ''generate_integers'')]\<rparr>)"
  by (simp add: generate_integers_def request_mock_returns extract_try_def
      random_data_def is_low_quota_def after_status_def is_response_successful_def
      log_sucess_def emit_def)

section \<open>The client is not modified\<close>

text \<open>
  C9. Every public operation, on any arguments and any behaviour of the transport, leaves
  the client as it was: url, api_key, version_str and both thresholds are unchanged.
\<close>

theorem configuration_unchanged: "self (snd (invoke post opn s)) = self s"
proof -
  obtain m p where "invoke post opn s = request post m p (Some (projection opn)) s"
    using invoke_request by blast
  then show ?thesis by (simp add: request_self)
qed

section \<open>The quota monitor\<close>

text \<open>
  C3, as amended. For integer counters and any thresholds, the requests warning is emitted
  exactly when its threshold is nonzero and \<open>requests_left\<close> is strictly below it; the
  bits warning is emitted exactly when the requests warning is not, its own threshold is
  nonzero and \<open>bits_left\<close> is strictly below it. So one call emits at most one warning:
  the first branch of \<^verbatim>\<open>_is_low_quota\<close> returns before the second is evaluated.
\<close>

theorem is_low_quota_warnings:
  "log_stream (snd (is_low_quota (PInt rl) (PInt bl) s)) =
     log_stream s @
       (if warn_below_quota_requests (self s) \<noteq> 0 \<and> rl < warn_below_quota_requests (self s)
        then [Event ModuleLogger WARNING low_request_quota_msg]
        else if warn_below_quota_bits (self s) \<noteq> 0 \<and> bl < warn_below_quota_bits (self s)
        then [Event RootLogger WARNING low_bit_quota_msg]
        else [])"
  by (simp add: is_low_quota_int)

theorem is_low_quota_warnings_witness:
  "log_stream (snd (is_low_quota (PInt 1) (PInt 1)
      \<lparr>self = \<lparr>url = ''u'', api_key = ''k'', version_str = ''4.0'',
                warn_below_quota_requests = 0, warn_below_quota_bits = 10\<rparr>,
       log_stream = []\<rparr>)) = [Event RootLogger WARNING low_bit_quota_msg]"
  using is_low_quota_warnings [of 1 1 "\<lparr>self = \<lparr>url = ''u'', api_key = ''k'', version_str = ''4.0'',
                warn_below_quota_requests = 0, warn_below_quota_bits = 10\<rparr>,
       log_stream = []\<rparr>"]
  by simp

text \<open>
  C3 as stated fails: with both thresholds at 10 and both counters at 1, the condition of
  the bits warning holds, and the bits warning is not emitted.
\<close>

theorem both_quotas_low_counterexample:
  "\<not> (Event RootLogger WARNING low_bit_quota_msg
        \<in> set (log_stream (snd (is_low_quota (PInt 1) (PInt 1)
              \<lparr>self = \<lparr>url = ''u'', api_key = ''k'', version_str = ''4.0'',
                        warn_below_quota_requests = 10, warn_below_quota_bits = 10\<rparr>,
               log_stream = []\<rparr>)))
      \<longleftrightarrow> (10::int) \<noteq> 0 \<and> (1::int) < 10)"
  by (simp add: is_low_quota_int)

section \<open>Well-formed responses\<close>

text \<open>
  C4. Given a 2xx response whose body decodes to an object with a \<^verbatim>\<open>"result"\<close> that
  holds the data of the operation and the two integer counters, every public operation
  returns the projection of the result object as it is: each of the seven generation calls
  returns the value found at \<^verbatim>\<open>result["random"]["data"]\<close>, and \<^verbatim>\<open>get_usage\<close>
  returns the four fields under their new names.
\<close>

theorem well_formed_response_returns_projection:
  assumes "200 \<le> status_code r" and "status_code r \<le> 299"
    and "content r = Some body"
    and "subscript body ''result'' = Inr res"
    and "subscript res ''requestsLeft'' = Inr (PInt rl)"
    and "subscript res ''bitsLeft'' = Inr (PInt bl)"
  shows "(subscript res ''random'' = Inr rnd \<and> subscript rnd ''data'' = Inr d \<longrightarrow>
            fst (generate_integers (mock_post_response r) num minimum maximum replacement base
                   pregenerateRandomiztion ident s) = Inr d
          \<and> fst (generate_integer_sequences (mock_post_response r) num length_arg minimum
                   maximum replacement base ident s) = Inr d
          \<and> fst (generate_decimal_fractions (mock_post_response r) num decimal_places
                   replacement ident s) = Inr d
          \<and> fst (generate_gaussians (mock_post_response r) num mean standard_deviation
                   significant_digits ident s) = Inr d
          \<and> fst (generate_strings (mock_post_response r) num length_arg characters
                   replacement ident s) = Inr d
          \<and> fst (generate_uuids (mock_post_response r) num ident s) = Inr d
          \<and> fst (generate_blobs (mock_post_response r) num size_arg ident s) = Inr d)
       \<and> (subscript res ''totalBits'' = Inr tb \<and> subscript res ''totalRequests'' = Inr tr \<longrightarrow>
            fst (get_usage (mock_post_response r) ident s) =
              Inr (PDict [(''bits_left'', PInt bl), (''requests_left'', PInt rl),
                          (''total_bits'', tb), (''total_requests'', tr)]))"
proof (intro conjI impI)
  assume a: "subscript res ''random'' = Inr rnd \<and> subscript rnd ''data'' = Inr d"
  have g: "fst (invoke (mock_post_response r) opn s) = Inr d" if "projection opn = random_data"
    for opn
  proof -
    have "projection opn res = Inr d" using a that by (simp add: random_data_def)
    with assms(3,4) show ?thesis using assms(5,6) by (rule well_formed_returns)
  qed
  show "fst (generate_integers (mock_post_response r) num minimum maximum replacement base
                   pregenerateRandomiztion ident s) = Inr d"
    using g [of "GenerateIntegers num minimum maximum replacement base
      pregenerateRandomiztion ident"] by simp
  show "fst (generate_integer_sequences (mock_post_response r) num length_arg minimum
                   maximum replacement base ident s) = Inr d"
    using g [of "GenerateIntegerSequences num length_arg minimum maximum replacement base
      ident"] by simp
  show "fst (generate_decimal_fractions (mock_post_response r) num decimal_places
                   replacement ident s) = Inr d"
    using g [of "GenerateDecimalFractions num decimal_places replacement ident"] by simp
  show "fst (generate_gaussians (mock_post_response r) num mean standard_deviation
                   significant_digits ident s) = Inr d"
    using g [of "GenerateGaussians num mean standard_deviation significant_digits ident"]
    by simp
  show "fst (generate_strings (mock_post_response r) num length_arg characters
                   replacement ident s) = Inr d"
    using g [of "GenerateStrings num length_arg characters replacement ident"] by simp
  show "fst (generate_uuids (mock_post_response r) num ident s) = Inr d"
    using g [of "GenerateUUIDs num ident"] by simp
  show "fst (generate_blobs (mock_post_response r) num size_arg ident s) = Inr d"
    using g [of "GenerateBlobs num size_arg ident"] by simp
next
  assume b: "subscript res ''totalBits'' = Inr tb \<and> subscript res ''totalRequests'' = Inr tr"
  have "projection (GetUsage ident) res =
      Inr (PDict [(''bits_left'', PInt bl), (''requests_left'', PInt rl),
                  (''total_bits'', tb), (''total_requests'', tr)])"
    using b assms(5,6) by (simp add: usage_fields_def)
  with assms(3,4) have "fst (invoke (mock_post_response r) (GetUsage ident) s) =
      Inr (PDict [(''bits_left'', PInt bl), (''requests_left'', PInt rl),
                  (''total_bits'', tb), (''total_requests'', tr)])"
    using assms(5,6) by (rule well_formed_returns)
  then show "fst (get_usage (mock_post_response r) ident s) =
              Inr (PDict [(''bits_left'', PInt bl), (''requests_left'', PInt rl),
                          (''total_bits'', tb), (''total_requests'', tr)])"
    by simp
qed

text \<open>
  The scenario of C4: \<^verbatim>\<open>generate_integers(num=5, minimum=1, maximum=10)\<close> against the
  response with data \<^verbatim>\<open>[1,2,3,4,5]\<close> and both counters at 1000 returns
  \<^verbatim>\<open>[1,2,3,4,5]\<close>; and \<^verbatim>\<open>get_usage(id=7)\<close> against a response with status 204
  returns its four fields.
\<close>

theorem generate_integers_scenario:
  "fst (generate_integers
     (mock_post_response
        \<lparr>status_code = 200,
         content = Some (PDict [(''result'',
           PDict [(''random'', PDict [(''data'', PList [PInt 1, PInt 2, PInt 3, PInt 4, PInt 5])]),
                  (''requestsLeft'', PInt 1000),
                  (''bitsLeft'', PInt 1000)])])\<rparr>)
     (PInt 5) (PInt 1) (PInt 10) (PBool True) (PInt 10) PNone (PInt 1)
     \<lparr>self = init ''test_api_key'' 4 ''4.0'' 0 0, log_stream = []\<rparr>)
   = Inr (PList [PInt 1, PInt 2, PInt 3, PInt 4, PInt 5])
   \<and> fst (get_usage
     (mock_post_response
        \<lparr>status_code = 204,
         content = Some (PDict [(''result'',
           PDict [(''bitsLeft'', PInt 250000), (''requestsLeft'', PInt 999),
                  (''totalBits'', PInt 500), (''totalRequests'', PInt 1)])])\<rparr>)
     (PInt 7)
     \<lparr>self = init ''test_api_key'' 4 ''4.0'' 0 0, log_stream = []\<rparr>)
   = Inr (PDict [(''bits_left'', PInt 250000), (''requests_left'', PInt 999),
                 (''total_bits'', PInt 500), (''total_requests'', PInt 1)])"
  using well_formed_response_returns_projection
    [of "\<lparr>status_code = 200,
         content = Some (PDict [(''result'',
           PDict [(''random'', PDict [(''data'', PList [PInt 1, PInt 2, PInt 3, PInt 4, PInt 5])]),
                  (''requestsLeft'', PInt 1000),
                  (''bitsLeft'', PInt 1000)])])\<rparr>"
        "PDict [(''result'',
           PDict [(''random'', PDict [(''data'', PList [PInt 1, PInt 2, PInt 3, PInt 4, PInt 5])]),
                  (''requestsLeft'', PInt 1000),
                  (''bitsLeft'', PInt 1000)])]"
        "PDict [(''random'', PDict [(''data'', PList [PInt 1, PInt 2, PInt 3, PInt 4, PInt 5])]),
                  (''requestsLeft'', PInt 1000),
                  (''bitsLeft'', PInt 1000)]"
        1000 1000
        "PDict [(''data'', PList [PInt 1, PInt 2, PInt 3, PInt 4, PInt 5])]"
        "PList [PInt 1, PInt 2, PInt 3, PInt 4, PInt 5]"
        "PInt 5" "PInt 1" "PInt 10" "PBool True" "PInt 10" PNone "PInt 1"
        "\<lparr>self = init ''test_api_key'' 4 ''4.0'' 0 0, log_stream = []\<rparr>",
     THEN conjunct1]
    well_formed_response_returns_projection
    [of "\<lparr>status_code = 204,
         content = Some (PDict [(''result'',
           PDict [(''bitsLeft'', PInt 250000), (''requestsLeft'', PInt 999),
                  (''totalBits'', PInt 500), (''totalRequests'', PInt 1)])])\<rparr>"
        "PDict [(''result'',
           PDict [(''bitsLeft'', PInt 250000), (''requestsLeft'', PInt 999),
                  (''totalBits'', PInt 500), (''totalRequests'', PInt 1)])]"
        "PDict [(''bitsLeft'', PInt 250000), (''requestsLeft'', PInt 999),
                  (''totalBits'', PInt 500), (''totalRequests'', PInt 1)]"
        999 250000 _ _ _ _ _ _ _ _ "PInt 7"
        "\<lparr>self = init ''test_api_key'' 4 ''4.0'' 0 0, log_stream = []\<rparr>"
        _ _ _ _ _ _ _ "PInt 500" "PInt 1",
     THEN conjunct2]
  by simp

text \<open>
  C6. Given a response whose result object carries \<^verbatim>\<open>bitsLeft\<close>, \<^verbatim>\<open>requestsLeft\<close>,
  \<^verbatim>\<open>totalBits\<close> and \<^verbatim>\<open>totalRequests\<close> (the two counters being integers),
  \<^verbatim>\<open>get_usage\<close> returns the mapping with the keys \<^verbatim>\<open>bits_left\<close>,
  \<^verbatim>\<open>requests_left\<close>, \<^verbatim>\<open>total_bits\<close> and \<^verbatim>\<open>total_requests\<close> carrying those four
  values unchanged.
\<close>

theorem get_usage_returns_renamed_fields:
  assumes "content r = Some body"
    and "subscript body ''result'' = Inr res"
    and "subscript res ''bitsLeft'' = Inr (PInt bl)"
    and "subscript res ''requestsLeft'' = Inr (PInt rl)"
    and "subscript res ''totalBits'' = Inr tb"
    and "subscript res ''totalRequests'' = Inr tr"
  shows "fst (get_usage (mock_post_response r) ident s) =
           Inr (PDict [(''bits_left'', PInt bl), (''requests_left'', PInt rl),
                       (''total_bits'', tb), (''total_requests'', tr)])"
proof -
  have "projection (GetUsage ident) res =
      Inr (PDict [(''bits_left'', PInt bl), (''requests_left'', PInt rl),
                  (''total_bits'', tb), (''total_requests'', tr)])"
    using assms by (simp add: usage_fields_def)
  with assms have "fst (invoke (mock_post_response r) (GetUsage ident) s) =
      Inr (PDict [(''bits_left'', PInt bl), (''requests_left'', PInt rl),
                  (''total_bits'', tb), (''total_requests'', tr)])"
    by (intro well_formed_returns)
  then show ?thesis by simp
qed

text \<open>
  The scenario of C6: against the result \<^verbatim>\<open>{"bitsLeft":1000, "requestsLeft":100,
  "totalBits":2000, "totalRequests":200}\<close>, \<^verbatim>\<open>get_usage()\<close> returns
  \<^verbatim>\<open>{"bits_left":1000, "requests_left":100, "total_bits":2000, "total_requests":200}\<close>.
\<close>

theorem get_usage_scenario:
  "fst (get_usage
     (mock_post_response
        \<lparr>status_code = 200,
         content = Some (PDict [(''result'',
           PDict [(''bitsLeft'', PInt 1000), (''requestsLeft'', PInt 100),
                  (''totalBits'', PInt 2000), (''totalRequests'', PInt 200)])])\<rparr>)
     (PInt 1)
     \<lparr>self = init ''test_api_key'' 4 ''4.0'' 0 0, log_stream = []\<rparr>)
   = Inr (PDict [(''bits_left'', PInt 1000), (''requests_left'', PInt 100),
                 (''total_bits'', PInt 2000), (''total_requests'', PInt 200)])"
  using get_usage_returns_renamed_fields
    [of "\<lparr>status_code = 200,
         content = Some (PDict [(''result'',
           PDict [(''bitsLeft'', PInt 1000), (''requestsLeft'', PInt 100),
                  (''totalBits'', PInt 2000), (''totalRequests'', PInt 200)])])\<rparr>"
        "PDict [(''result'',
           PDict [(''bitsLeft'', PInt 1000), (''requestsLeft'', PInt 100),
                  (''totalBits'', PInt 2000), (''totalRequests'', PInt 200)])]"
        "PDict [(''bitsLeft'', PInt 1000), (''requestsLeft'', PInt 100),
                  (''totalBits'', PInt 2000), (''totalRequests'', PInt 200)]"
        1000 100 "PInt 2000" "PInt 200" "PInt 1"
        "\<lparr>self = init ''test_api_key'' 4 ''4.0'' 0 0, log_stream = []\<rparr>"]
  by simp

section \<open>The payload of the integer sequences\<close>

text \<open>
  C5. The claim is that the parameters of \<^verbatim>\<open>generate_integer_sequences\<close> carry the
  caller's \<open>base\<close> argument under \<^verbatim>\<open>"base"\<close>. The code does otherwise: whatever the
  arguments, the entry is the type expression \<^verbatim>\<open>list[int]\<close>; for the call with
  \<^verbatim>\<open>base=[10, 10]\<close> it is not \<^verbatim>\<open>[10, 10]\<close>.
\<close>

theorem integer_sequences_base_is_type_expression:
  "(case subscript (generate_integer_sequences_payload c num length_arg minimum maximum
        replacement base ident) ''params'' of
      Inl e \<Rightarrow> Inl e
    | Inr params \<Rightarrow> subscript params ''base'') = Inr (PType ''list[int]'')
   \<and> (case subscript (generate_integer_sequences_payload c (PInt 2) (PList [PInt 5, PInt 5])
         (PList [PInt 1, PInt 1]) (PList [PInt 10, PInt 10]) (PList [PBool True, PBool False])
         (PList [PInt 10, PInt 10]) (PInt 1)) ''params'' of
      Inl e \<Rightarrow> Inl e
    | Inr params \<Rightarrow> subscript params ''base'') \<noteq> Inr (PList [PInt 10, PInt 10])"
  by (simp add: generate_integer_sequences_payload_def)

section \<open>Unsuccessful status codes\<close>

text \<open>
  C7. When the transport returns a response whose status is outside 200..299, every public
  operation logs the warning and goes on to the extraction: the call behaves as the same
  call on the same body with status 200, started after the warning was logged. The warning
  is in the log afterwards, and if the body holds the result, the data of the operation
  and two integer counters, the projected data is returned.
\<close>

theorem unsuccessful_status_warns_and_extracts:
  assumes "\<not> (200 \<le> status_code r \<and> status_code r \<le> 299)"
  shows "invoke (mock_post_response r) opn s =
           invoke (mock_post_response (r\<lparr>status_code := 200\<rparr>)) opn
             (emit ModuleLogger WARNING (status_warning_msg ''generate_integers'') s)
         \<and> Event ModuleLogger WARNING (status_warning_msg ''generate_integers'')
             \<in> set (log_stream (snd (invoke (mock_post_response r) opn s)))
         \<and> (content r = Some body \<and> subscript body ''result'' = Inr res
              \<and> projection opn res = Inr d
              \<and> subscript res ''requestsLeft'' = Inr (PInt rl)
              \<and> subscript res ''bitsLeft'' = Inr (PInt bl)
            \<longrightarrow> fst (invoke (mock_post_response r) opn s) = Inr d)"
proof -
  let ?w = "emit ModuleLogger WARNING (status_warning_msg ''generate_integers'') s"
  let ?r = "r\<lparr>status_code := 200\<rparr>"
  have eq: "invoke (mock_post_response r) opn s = invoke (mock_post_response ?r) opn ?w"
    unfolding invoke_mock_returns extract_try_status after_status_200
      after_status_non_2xx [OF assms] ..
  obtain m0 p0 where "invoke (mock_post_response ?r) opn ?w
      = request (mock_post_response ?r) m0 p0 (Some (projection opn)) ?w"
    using invoke_request by blast
  then obtain new where "log_stream (snd (invoke (mock_post_response ?r) opn ?w))
      = log_stream ?w @ new"
    using request_log [of "mock_post_response ?r" m0 p0 "Some (projection opn)" ?w] by auto
  then have mem: "Event ModuleLogger WARNING (status_warning_msg ''generate_integers'')
      \<in> set (log_stream (snd (invoke (mock_post_response r) opn s)))"
    by (simp add: eq)
  have "fst (invoke (mock_post_response r) opn s) = Inr d"
    if "content r = Some body" "subscript body ''result'' = Inr res"
      "projection opn res = Inr d" "subscript res ''requestsLeft'' = Inr (PInt rl)"
      "subscript res ''bitsLeft'' = Inr (PInt bl)"
    using that by (rule well_formed_returns)
  with eq mem show ?thesis by blast
qed

text \<open>
  An instance of C7: \<^verbatim>\<open>generate_strings(num=2, length=5, characters="abcde")\<close> against a
  response with status 500 and data \<^verbatim>\<open>["abcde","edcba"]\<close> logs the warning and returns
  that sequence.
\<close>

theorem unsuccessful_status_witness:
  "\<not> (200 \<le> (500::int) \<and> (500::int) \<le> 299)
   \<and> fst (generate_strings
        (mock_post_response
           \<lparr>status_code = 500,
            content = Some (PDict [(''result'',
              PDict [(''random'', PDict [(''data'', PList [PStr ''abcde'', PStr ''edcba''])]),
                     (''requestsLeft'', PInt 1000),
                     (''bitsLeft'', PInt 1000)])])\<rparr>)
        (PInt 2) (PInt 5) (PStr ''abcde'') (PBool True) (PInt 1)
        \<lparr>self = init ''test_api_key'' 4 ''4.0'' 0 0, log_stream = []\<rparr>)
      = Inr (PList [PStr ''abcde'', PStr ''edcba''])
   \<and> Event ModuleLogger WARNING (status_warning_msg ''generate_integers'')
       \<in> set (log_stream (snd (generate_strings
        (mock_post_response
           \<lparr>status_code = 500,
            content = Some (PDict [(''result'',
              PDict [(''random'', PDict [(''data'', PList [PStr ''abcde'', PStr ''edcba''])]),
                     (''requestsLeft'', PInt 1000),
                     (''bitsLeft'', PInt 1000)])])\<rparr>)
        (PInt 2) (PInt 5) (PStr ''abcde'') (PBool True) (PInt 1)
        \<lparr>self = init ''test_api_key'' 4 ''4.0'' 0 0, log_stream = []\<rparr>)))"
  using unsuccessful_status_warns_and_extracts
    [of "\<lparr>status_code = 500,
            content = Some (PDict [(''result'',
              PDict [(''random'', PDict [(''data'', PList [PStr ''abcde'', PStr ''edcba''])]),
                     (''requestsLeft'', PInt 1000),
                     (''bitsLeft'', PInt 1000)])])\<rparr>"
        "GenerateStrings (PInt 2) (PInt 5) (PStr ''abcde'') (PBool True) (PInt 1)"
        "\<lparr>self = init ''test_api_key'' 4 ''4.0'' 0 0, log_stream = []\<rparr>"
        "PDict [(''result'',
              PDict [(''random'', PDict [(''data'', PList [PStr ''abcde'', PStr ''edcba''])]),
                     (''requestsLeft'', PInt 1000),
                     (''bitsLeft'', PInt 1000)])]"
        "PDict [(''random'', PDict [(''data'', PList [PStr ''abcde'', PStr ''edcba''])]),
                     (''requestsLeft'', PInt 1000),
                     (''bitsLeft'', PInt 1000)]"
        "PList [PStr ''abcde'', PStr ''edcba'']" 1000 1000, THEN conjunct2]
  by (simp add: random_data_def)

section \<open>The thresholds and the returned value\<close>

text \<open>
  C8, as amended. For two clients that differ only in their two thresholds, every public
  operation on the same transport has the same outcome (the same returned value or the
  same exception) whenever each counter of the response is a number (an integer, a
  boolean or a float) or is compared by neither client, its threshold being zero in both.
  Without that condition the two outcomes still differ in one way only: one of the calls
  raises \<^verbatim>\<open>TypeError\<close>.
\<close>

theorem thresholds_do_not_alter_outcome:
  assumes "url (self s1) = url (self s2)"
    and "api_key (self s1) = api_key (self s2)"
    and "version_str (self s1) = version_str (self s2)"
  shows "((\<forall>u p r. post u p = Returns r \<longrightarrow>
             counters_comparable r (self s1) \<and> counters_comparable r (self s2))
          \<longrightarrow> fst (invoke post opn s1) = fst (invoke post opn s2))
         \<and> (fst (invoke post opn s1) = fst (invoke post opn s2)
            \<or> fst (invoke post opn s1) = Inl TypeError
            \<or> fst (invoke post opn s2) = Inl TypeError)"
proof (intro conjI impI)
  assume c: "\<forall>u p r. post u p = Returns r \<longrightarrow>
             counters_comparable r (self s1) \<and> counters_comparable r (self s2)"
  show "fst (invoke post opn s1) = fst (invoke post opn s2)"
    by (cases opn)
       (simp_all add: generate_integers_def generate_integers_payload_def
          generate_integer_sequences_def generate_integer_sequences_payload_def
          generate_decimal_fractions_def generate_decimal_fractions_payload_def
          generate_gaussians_def generate_gaussians_payload_def
          generate_strings_def generate_strings_payload_def
          generate_uuids_def generate_uuids_payload_def
          generate_blobs_def generate_blobs_payload_def
          get_usage_def get_usage_payload_def
          assms(2,3) request_same_outcome [OF assms(1) c])
next
  show "fst (invoke post opn s1) = fst (invoke post opn s2)
            \<or> fst (invoke post opn s1) = Inl TypeError
            \<or> fst (invoke post opn s2) = Inl TypeError"
    by (cases opn)
       (simp_all add: generate_integers_def generate_integers_payload_def
          generate_integer_sequences_def generate_integer_sequences_payload_def
          generate_decimal_fractions_def generate_decimal_fractions_payload_def
          generate_gaussians_def generate_gaussians_payload_def
          generate_strings_def generate_strings_payload_def
          generate_uuids_def generate_uuids_payload_def
          generate_blobs_def generate_blobs_payload_def
          get_usage_def get_usage_payload_def
          assms request_thresholds [OF assms(1)])
qed

text \<open>
  An instance of C8: with counters at 3, a client with both thresholds at 0 and a client
  with both at 50 (for which the warning fires) return the same data.
\<close>

theorem thresholds_witness:
  "fst (invoke
     (mock_post_response
        \<lparr>status_code = 200,
         content = Some (PDict [(''result'',
           PDict [(''random'', PDict [(''data'', PList [PInt 7])]),
                  (''requestsLeft'', PInt 3),
                  (''bitsLeft'', PInt 3)])])\<rparr>)
     (GenerateIntegers (PInt 1) (PInt 1) (PInt 10) (PBool True) (PInt 10) PNone (PInt 1))
     \<lparr>self = init ''key'' 4 ''4.0'' 0 0, log_stream = []\<rparr>)
   = fst (invoke
     (mock_post_response
        \<lparr>status_code = 200,
         content = Some (PDict [(''result'',
           PDict [(''random'', PDict [(''data'', PList [PInt 7])]),
                  (''requestsLeft'', PInt 3),
                  (''bitsLeft'', PInt 3)])])\<rparr>)
     (GenerateIntegers (PInt 1) (PInt 1) (PInt 10) (PBool True) (PInt 10) PNone (PInt 1))
     \<lparr>self = init ''key'' 4 ''4.0'' 50 50, log_stream = []\<rparr>)"
proof -
  let ?r = "\<lparr>status_code = 200,
         content = Some (PDict [(''result'',
           PDict [(''random'', PDict [(''data'', PList [PInt 7])]),
                  (''requestsLeft'', PInt 3),
                  (''bitsLeft'', PInt 3)])])\<rparr>"
  let ?s1 = "\<lparr>self = init ''key'' 4 ''4.0'' 0 0, log_stream = []\<rparr>"
  let ?s2 = "\<lparr>self = init ''key'' 4 ''4.0'' 50 50, log_stream = []\<rparr>"
  have h1: "url (self ?s1) = url (self ?s2)" by (simp add: init_def)
  have h2: "api_key (self ?s1) = api_key (self ?s2)" by (simp add: init_def)
  have h3: "version_str (self ?s1) = version_str (self ?s2)" by (simp add: init_def)
  have h4: "\<forall>u p r. mock_post_response ?r u p = Returns r \<longrightarrow>
             counters_comparable r (self ?s1) \<and> counters_comparable r (self ?s2)"
    by (auto simp: mock_post_response_def counters_comparable_def)
  from thresholds_do_not_alter_outcome [of ?s1 ?s2 "mock_post_response ?r"
      "GenerateIntegers (PInt 1) (PInt 1) (PInt 10) (PBool True) (PInt 10) PNone (PInt 1)",
      OF h1 h2 h3] h4
  show ?thesis by blast
qed

text \<open>
  C8 as stated fails: when \<^verbatim>\<open>requestsLeft\<close> is the string \<^verbatim>\<open>"many"\<close>, the client
  with thresholds 0 and 0 returns the data, and the client with thresholds 1 and 0, on the
  same response, raises \<^verbatim>\<open>TypeError\<close> from the comparison in \<^verbatim>\<open>_is_low_quota\<close>.
\<close>

theorem non_numeric_counter_counterexample:
  "fst (generate_integers
     (mock_post_response
        \<lparr>status_code = 200,
         content = Some (PDict [(''result'',
           PDict [(''random'', PDict [(''data'', PList [PInt 7])]),
                  (''requestsLeft'', PStr ''many''),
                  (''bitsLeft'', PInt 1000)])])\<rparr>)
     (PInt 1) (PInt 1) (PInt 10) (PBool True) (PInt 10) PNone (PInt 1)
     \<lparr>self = init ''key'' 4 ''4.0'' 0 0, log_stream = []\<rparr>) = Inr (PList [PInt 7])
   \<and> fst (generate_integers
     (mock_post_response
        \<lparr>status_code = 200,
         content = Some (PDict [(''result'',
           PDict [(''random'', PDict [(''data'', PList [PInt 7])]),
                  (''requestsLeft'', PStr ''many''),
                  (''bitsLeft'', PInt 1000)])])\<rparr>)
     (PInt 1) (PInt 1) (PInt 10) (PBool True) (PInt 10) PNone (PInt 1)
     \<lparr>self = init ''key'' 4 ''4.0'' 1 0, log_stream = []\<rparr>) = Inl TypeError"
  by (simp add: init_def generate_integers_def request_mock_returns extract_try_def
      random_data_def is_low_quota_def)

section \<open>The method name in the diagnostics\<close>

text \<open>
  C10. Whatever operation is called, every event it adds to the log is one of the four
  messages of the pipeline with the method name \<^verbatim>\<open>generate_integers\<close>, or one of the
  two quota warnings, which carry no method name; and the pipeline does not depend on the
  method argument it is given.
\<close>

theorem diagnostics_name_generate_integers:
  "(\<exists>new. log_stream (snd (invoke post opn s)) = log_stream s @ new
      \<and> set new \<subseteq>
          {Event ModuleLogger ERROR (connection_error_msg ''generate_integers''),
           Event ModuleLogger WARNING (status_warning_msg ''generate_integers''),
           Event ModuleLogger ERROR (decode_error_msg ''generate_integers''),
           Event ModuleLogger DEBUG (success_msg ''generate_integers''),
           Event ModuleLogger WARNING low_request_quota_msg,
           Event RootLogger WARNING low_bit_quota_msg})
   \<and> request post m p f s = request post m' p f s"
proof -
  obtain m0 p0 where "invoke post opn s = request post m0 p0 (Some (projection opn)) s"
    using invoke_request by blast
  then show ?thesis
    using request_log [of post m0 p0 "Some (projection opn)" s]
    by (simp add: pipeline_events_def request_method_ignored [of post m p f s m'])
qed

text \<open>
  An instance of C10: a successful \<^verbatim>\<open>generate_uuids\<close> logs that
  \<^verbatim>\<open>basicApi.generate_integers()\<close> was retrieved.
\<close>

theorem generate_uuids_logs_generate_integers:
  "log_stream (snd (generate_uuids
      (mock_post_response
         \<lparr>status_code = 200,
          content = Some (PDict [(''result'',
            PDict [(''random'', PDict [(''data'', PList [PStr ''123e4567-e89b-12d3-a456-426614174000''])]),
                   (''requestsLeft'', PInt 1000),
                   (''bitsLeft'', PInt 1000)])])\<rparr>)
      (PInt 1) (PInt 1)
      \<lparr>self = init ''test_api_key'' 4 ''4.0'' 0 0, log_stream = []\<rparr>))
   = [Event ModuleLogger DEBUG ''Sucessfully retrieved basicApi.generate_integers()'']"
  using diagnostics_name_generate_integers
    [of "mock_post_response
         \<lparr>status_code = 200,
          content = Some (PDict [(''result'',
            PDict [(''random'', PDict [(''data'', PList [PStr ''123e4567-e89b-12d3-a456-426614174000''])]),
                   (''requestsLeft'', PInt 1000),
                   (''bitsLeft'', PInt 1000)])])\<rparr>"
        "GenerateUUIDs (PInt 1) (PInt 1)"
        "\<lparr>self = init ''test_api_key'' 4 ''4.0'' 0 0, log_stream = []\<rparr>"]
  by (simp add: generate_uuids_def request_mock_returns extract_try_def random_data_def
      after_status_def is_response_successful_def is_low_quota_int init_def log_sucess_def
      success_msg_def)

end
